theory Spec2Isabelle
  imports Main
begin

section \<open>Python values used by the chart script\<close>

text \<open>
  The script \<^verbatim>\<open>main.py\<close> assigns literal figures, arranges them into the node and
  link lists of a Sankey diagram, derives one colour string per link and hands the lists
  to the charting library. The embedding below follows the script function by function.
  Exceptions are values of \<open>py_error\<close>; a computation that may raise returns
  \<open>py_error + 'a\<close>, with \<open>Inl\<close> for the exception.
\<close>

datatype py_error = KeyError | IndexError | ValueError | FileExistsError | IsADirectoryError

definition bind :: "py_error + 'a \<Rightarrow> ('a \<Rightarrow> py_error + 'b) \<Rightarrow> py_error + 'b" where
  "bind m f = (case m of Inl err \<Rightarrow> Inl err | Inr x \<Rightarrow> f x)"

text \<open>
  \<open>xs[i]\<close> on a Python list: a negative index counts from the end, an index outside the
  list raises \<open>IndexError\<close>.
\<close>

definition getindex :: "'a list \<Rightarrow> int \<Rightarrow> py_error + 'a" where
  "getindex xs i =
     (if 0 \<le> i \<and> i < int (length xs) then Inr (xs ! nat i)
      else if i < 0 \<and> - int (length xs) \<le> i then Inr (xs ! nat (int (length xs) + i))
      else Inl IndexError)"

text \<open>
  \<open>d[k]\<close> on a Python dict, kept as an association list in insertion order (the order
  in which \<open>d.values()\<close> yields the entries): a missing key raises \<open>KeyError\<close>.
\<close>

definition getitem :: "('k \<times> 'v) list \<Rightarrow> 'k \<Rightarrow> py_error + 'v" where
  "getitem d k = (case map_of d k of None \<Rightarrow> Inl KeyError | Some v \<Rightarrow> Inr v)"

subsection \<open>Floats: IEEE 754 binary64\<close>

text \<open>
  A Python float is a binary64 number. \<open>Dbl m e\<close> stands for the finite value
  \<open>m * 2 ^ e\<close>, kept in lowest terms (\<open>m\<close> odd, or \<open>Dbl 0 0\<close> for zero), so that two
  finite floats are equal exactly when their representations are. \<open>Dbl 0 0\<close> is the
  positive zero and \<open>NegZero\<close> the negative zero \<^verbatim>\<open>-0.0\<close>.
\<close>

datatype float64 = Dbl int int | NegZero | Inf bool | NaN

function bit_length :: "int \<Rightarrow> int" where
  "bit_length n = (if n \<le> 0 then 0 else 1 + bit_length (n div 2))"
  by pat_completeness auto
termination
  by (relation "measure nat") auto

declare bit_length.simps [simp del]

function normalise :: "int \<Rightarrow> int \<Rightarrow> float64" where
  "normalise m e =
     (if m = 0 then Dbl 0 0
      else if even m then normalise (m div 2) (e + 1)
      else Dbl m e)"
  by pat_completeness auto
termination
  by (relation "measure (\<lambda>(m, e). nat \<bar>m\<bar>)") auto

declare normalise.simps [simp del]

text \<open>
  \<open>scale b e\<close> is a pair \<open>(p, q)\<close> of positive integers with
  \<open>p / q = 1 / (b * 2 ^ e)\<close>, for an exponent of either sign.
\<close>

definition scale :: "int \<Rightarrow> int \<Rightarrow> int \<times> int" where
  "scale b e = (if 0 \<le> e then (1, b * 2 ^ nat e) else (2 ^ nat (- e), b))"

text \<open>
  \<open>floor_log2 a b\<close> is the integer \<open>k\<close> with \<open>2 ^ k \<le> a / b < 2 ^ (k + 1)\<close>, for
  positive \<open>a\<close> and \<open>b\<close>: the difference of the bit lengths is either \<open>k\<close> or \<open>k + 1\<close>.
\<close>

definition floor_log2 :: "int \<Rightarrow> int \<Rightarrow> int" where
  "floor_log2 a b =
     (let k = bit_length a - bit_length b; (p, q) = scale b k
      in if q \<le> a * p then k else k - 1)"

text \<open>\<open>round_half_even a b\<close> is the integer nearest to \<open>a / b\<close>, a tie going to the even one.\<close>

definition round_half_even :: "int \<Rightarrow> int \<Rightarrow> int" where
  "round_half_even a b =
     (let f = a div b; r = a mod b
      in if 2 * r < b then f
         else if b < 2 * r then f + 1
         else if even f then f else f + 1)"

text \<open>
  \<open>round64 a b\<close> is the binary64 number nearest to the fraction \<open>a / b\<close> (\<open>b\<close>
  positive), ties to even: 53 significant bits, exponents down to \<open>-1074\<close> (subnormal
  numbers), a zero with the sign of \<open>a\<close> when the value rounds to nothing, and
  infinity when the rounded value reaches \<open>2 ^ 1024\<close>, that is when the bit length of
  \<open>m\<close> plus \<open>e\<close> exceeds 1024.
\<close>

definition round64 :: "int \<Rightarrow> int \<Rightarrow> float64" where
  "round64 a b =
     (if a = 0 then Dbl 0 0
      else
        let e = max (floor_log2 \<bar>a\<bar> b - 52) (- 1074);
            (p, q) = scale b e;
            m = round_half_even (\<bar>a\<bar> * p) q
        in if m = 0 then (if a < 0 then NegZero else Dbl 0 0)
           else if 1025 \<le> bit_length m + e then Inf (a < 0)
           else normalise (sgn a * m) e)"

text \<open>
  A decimal literal of the source: \<open>float_literal 9377 3\<close> is what Python reads from
  the text \<^verbatim>\<open>9.377\<close>, the digits \<open>9377\<close> with three of them after the point.
\<close>

definition float_literal :: "int \<Rightarrow> nat \<Rightarrow> float64" where
  "float_literal digits places = round64 digits (10 ^ places)"

text \<open>
  Float addition: the exact sum, rounded once. A sum that is exactly zero is the
  positive zero, unless both terms are the negative zero.
\<close>

fun fadd :: "float64 \<Rightarrow> float64 \<Rightarrow> float64" where
  "fadd (Dbl m1 e1) (Dbl m2 e2) =
     (let e = min e1 e2; s = m1 * 2 ^ nat (e1 - e) + m2 * 2 ^ nat (e2 - e)
      in if 0 \<le> e then round64 (s * 2 ^ nat e) 1 else round64 s (2 ^ nat (- e)))"
| "fadd NegZero NegZero = NegZero"
| "fadd NegZero (Dbl m e) = Dbl m e"
| "fadd (Dbl m e) NegZero = Dbl m e"
| "fadd NaN y = NaN"
| "fadd x NaN = NaN"
| "fadd (Inf s) (Inf t) = (if s = t then Inf s else NaN)"
| "fadd (Inf s) y = Inf s"
| "fadd x (Inf t) = Inf t"

text \<open>
  The builtin \<open>sum\<close> starts from the integer \<open>0\<close> and adds the items from left to right.
\<close>

definition py_sum :: "float64 list \<Rightarrow> float64" where
  "py_sum xs = foldl fadd (Dbl 0 0) xs"

text \<open>
  From Python 3.12 on, \<open>sum\<close> adds floats with a compensation term (Neumaier's
  summation): next to the running total it accumulates the rounding errors of the
  additions and adds them once at the end. \<open>fsub\<close> is float subtraction and
  \<open>fabs_ge x y\<close> the comparison \<open>fabs(x) >= fabs(y)\<close>.
\<close>

fun fneg :: "float64 \<Rightarrow> float64" where
  "fneg (Dbl m e) = (if m = 0 then NegZero else Dbl (- m) e)"
| "fneg NegZero = Dbl 0 0"
| "fneg (Inf s) = Inf (\<not> s)"
| "fneg NaN = NaN"

definition fsub :: "float64 \<Rightarrow> float64 \<Rightarrow> float64" where
  "fsub x y = fadd x (fneg y)"

fun fabs_ge :: "float64 \<Rightarrow> float64 \<Rightarrow> bool" where
  "fabs_ge NaN y = False"
| "fabs_ge x NaN = False"
| "fabs_ge (Inf s) y = True"
| "fabs_ge x (Inf t) = False"
| "fabs_ge (Dbl m1 e1) (Dbl m2 e2) =
     (\<bar>m2\<bar> * 2 ^ nat (e2 - min e1 e2) \<le> \<bar>m1\<bar> * 2 ^ nat (e1 - min e1 e2))"
| "fabs_ge NegZero (Dbl m e) = (m = 0)"
| "fabs_ge x NegZero = True"

fun is_finite :: "float64 \<Rightarrow> bool" where
  "is_finite (Dbl m e) = True"
| "is_finite NegZero = True"
| "is_finite x = False"

definition cs_add :: "float64 \<times> float64 \<Rightarrow> float64 \<Rightarrow> float64 \<times> float64" where
  "cs_add acc x =
     (case acc of (hi, lo) \<Rightarrow>
        let t = fadd hi x
        in if fabs_ge hi x then (t, fadd lo (fadd (fsub hi t) x))
           else (t, fadd lo (fadd (fsub x t) hi)))"

definition py_sum_compensated :: "float64 list \<Rightarrow> float64" where
  "py_sum_compensated xs =
     (case foldl cs_add (Dbl 0 0, Dbl 0 0) xs of (hi, lo) \<Rightarrow>
        if lo \<noteq> Dbl 0 0 \<and> lo \<noteq> NegZero \<and> is_finite lo then fadd hi lo else hi)"

section \<open>The constant table\<close>

definition PRODUCTS :: "(string \<times> float64) list" where
  "PRODUCTS =
     [(''iPhone'', float_literal 470 1),
      (''Mac'', float_literal 92 1),
      (''iPad'', float_literal 67 1),
      (''Wearables'', float_literal 9377 3)]"

definition REVENUE :: float64 where
  "REVENUE = py_sum (map snd PRODUCTS)"

definition COGS :: float64 where "COGS = float_literal 44379 3"
definition GROSS_PROFIT :: float64 where "GROSS_PROFIT = float_literal 27898 3"

definition OPERATING_EXPENSES :: float64 where "OPERATING_EXPENSES = float_literal 20199 3"
definition OPERATING_PROFIT :: float64 where "OPERATING_PROFIT = float_literal 7699 3"

definition NET_PROFIT :: float64 where "NET_PROFIT = float_literal 5638 3"
definition TAXES :: float64 where "TAXES = float_literal 2118 3"
definition OTHER :: float64 where "OTHER = float_literal 56 3"

definition INDUSTRIAL :: float64 where "INDUSTRIAL = float_literal 6277 3"
definition COMMERCIAL :: float64 where "COMMERCIAL = float_literal 8038 3"
definition ADMINISTRATIVE :: float64 where "ADMINISTRATIVE = float_literal 4069 3"
definition R_AND_D :: float64 where "R_AND_D = float_literal 10 3"
definition HEADQTR :: float64 where "HEADQTR = float_literal 936 3"
definition DEPRECIATION :: float64 where "DEPRECIATION = float_literal 868 3"

definition RAW_MATERIAL :: float64 where "RAW_MATERIAL = float_literal 37024 3"
definition LABOR_COSTS :: float64 where "LABOR_COSTS = float_literal 5365 3"
definition OTHER_COGS :: float64 where "OTHER_COGS = float_literal 1990 3"

definition COLORS :: "(string \<times> string) list" where
  "COLORS =
     [(''blue'', ''#4A90D9''),
      (''green'', ''#27AE60''),
      (''red'', ''#C0392B'')]"

section \<open>Text formatting\<close>

text \<open>
  Strings are lists of characters with code points below 256. \<open>str_int\<close> is the
  decimal text of an integer, as \<open>str\<close> and an empty format field give it.
\<close>

definition digit_char :: "int \<Rightarrow> char" where
  "digit_char d = ''0123456789'' ! nat d"

text \<open>The decimal digits of a non-negative integer.\<close>

function str_digits :: "int \<Rightarrow> string" where
  "str_digits n =
     (if n < 10 then [digit_char n] else str_digits (n div 10) @ [digit_char (n mod 10)])"
  by pat_completeness auto
termination
  by (relation "measure nat") auto

declare str_digits.simps [simp del]

definition str_int :: "int \<Rightarrow> string" where
  "str_int i = (if i < 0 then ''-'' @ str_digits (- i) else str_digits i)"

text \<open>
  The format field \<^verbatim>\<open>:.2f\<close>: the exact value of the float, rounded to hundredths
  (ties to even), printed with its integer part, a point and two digits; a negative
  float keeps its sign even when it rounds to zero.
\<close>

fun format_2f :: "float64 \<Rightarrow> string" where
  "format_2f (Dbl m e) =
     (let (p, q) = scale 1 e;
          n = round_half_even (\<bar>m\<bar> * 100 * q) p
      in (if m < 0 then ''-'' else []) @ str_digits (n div 100) @ ''.'' @
         [digit_char (n mod 100 div 10), digit_char (n mod 10)])"
| "format_2f NegZero = ''-0.00''"
| "format_2f (Inf s) = (if s then ''-inf'' else ''inf'')"
| "format_2f NaN = ''nan''"

section \<open>Colour conversion\<close>

text \<open>
  \<open>int(s, 16)\<close>: blanks around the text are dropped, then come an optional sign, an
  optional prefix \<^verbatim>\<open>0x\<close> (which may be followed by one underscore) and the hexadecimal
  digits, where single underscores may stand between digits. Anything else raises
  \<open>ValueError\<close>.
\<close>

definition is_space :: "char \<Rightarrow> bool" where
  "is_space c = ((of_char c :: nat) \<in> {9, 10, 11, 12, 13, 32, 133, 160})"

definition digit_value :: "char \<Rightarrow> int option" where
  "digit_value c =
     (let n = (of_char c :: nat)
      in if 48 \<le> n \<and> n \<le> 57 then Some (int n - 48)
         else if 65 \<le> n \<and> n \<le> 70 then Some (int n - 55)
         else if 97 \<le> n \<and> n \<le> 102 then Some (int n - 87)
         else None)"

definition is_digit_or_underscore :: "char \<Rightarrow> bool" where
  "is_digit_or_underscore c = (digit_value c \<noteq> None \<or> c = CHR ''_'')"

fun double_underscore :: "string \<Rightarrow> bool" where
  "double_underscore (a # b # cs) =
     ((a = CHR ''_'' \<and> b = CHR ''_'') \<or> double_underscore (b # cs))"
| "double_underscore cs = False"

definition strip_sign :: "string \<Rightarrow> bool \<times> string" where
  "strip_sign t =
     (case t of
        [] \<Rightarrow> (False, t)
      | c # r \<Rightarrow>
          if c = CHR ''+'' then (False, r)
          else if c = CHR ''-'' then (True, r)
          else (False, t))"

definition strip_prefix :: "string \<Rightarrow> string" where
  "strip_prefix u =
     (case u of
        z # x # r \<Rightarrow>
          if z = CHR ''0'' \<and> (x = CHR ''x'' \<or> x = CHR ''X'')
          then (case r of [] \<Rightarrow> r | c # r' \<Rightarrow> if c = CHR ''_'' then r' else r)
          else u
      | _ \<Rightarrow> u)"

definition hex_value :: "string \<Rightarrow> int" where
  "hex_value body =
     foldl (\<lambda>acc c. case digit_value c of None \<Rightarrow> acc | Some d \<Rightarrow> 16 * acc + d) 0 body"

definition py_int16 :: "string \<Rightarrow> py_error + int" where
  "py_int16 s =
     (let (neg, u) = strip_sign (dropWhile is_space s);
          v = strip_prefix u;
          body = takeWhile is_digit_or_underscore v;
          rest = dropWhile is_digit_or_underscore v
      in if body = [] \<or> hd body = CHR ''_'' \<or> last body = CHR ''_''
            \<or> double_underscore body \<or> \<not> list_all is_space rest
         then Inl ValueError
         else Inr ((if neg then - 1 else 1) * hex_value body))"

text \<open>
  The characters that \<open>int(s, 16)\<close> can accept somewhere in a text: hexadecimal digits,
  blanks, the two signs, the underscore and the letter of the prefix.
\<close>

definition is_hex_digit :: "char \<Rightarrow> bool" where
  "is_hex_digit c = (digit_value c \<noteq> None)"


text \<open>The slice \<open>s[i : i + 2]\<close>; a slice never raises, it is cut at the end of the text.\<close>

definition slice2 :: "string \<Rightarrow> nat \<Rightarrow> string" where
  "slice2 s i = take 2 (drop i s)"

text \<open>\<open>s.lstrip("#")\<close> removes every leading \<^verbatim>\<open>#\<close>.\<close>

definition lstrip_hash :: "string \<Rightarrow> string" where
  "lstrip_hash s = dropWhile (\<lambda>c. c = CHR ''#'') s"

text \<open>
  \<open>hex_to_rgba\<close>. The three slices are parsed in the order 0, 2, 4 and the first
  failure is the exception raised. The alpha argument enters the result only through
  its \<open>str\<close>, so the model takes that text: \<^verbatim>\<open>0.5\<close> for the float \<open>0.5\<close>.
\<close>

definition hex_to_rgba :: "string \<Rightarrow> string \<Rightarrow> py_error + string" where
  "hex_to_rgba hex_color alpha =
     (let hex_color = lstrip_hash hex_color
      in bind (py_int16 (slice2 hex_color 0)) (\<lambda>r.
         bind (py_int16 (slice2 hex_color 2)) (\<lambda>g.
         bind (py_int16 (slice2 hex_color 4)) (\<lambda>b.
         Inr (''rgba('' @ str_int r @ '', '' @ str_int g @ '', '' @ str_int b @ '', ''
              @ alpha @ '')'')))))"

section \<open>The graph assembler\<close>

text \<open>
  The dictionary returned by \<open>build_sankey_data\<close>; the field \<open>vals\<close> is the key
  \<^verbatim>\<open>values\<close>.
\<close>

record sankey_data =
  labels :: "string list"
  node_colors :: "string list"
  sources :: "int list"
  targets :: "int list"
  vals :: "float64 list"
  link_colors :: "string list"

text \<open>A list comprehension whose element expression may raise stops at the first exception.\<close>

fun map_result :: "('a \<Rightarrow> py_error + 'b) \<Rightarrow> 'a list \<Rightarrow> py_error + 'b list" where
  "map_result f [] = Inr []"
| "map_result f (x # xs) = bind (f x) (\<lambda>y. bind (map_result f xs) (\<lambda>ys. Inr (y # ys)))"

text \<open>The local list \<open>node_data\<close>: name and value of each node, the position being the index.\<close>

definition node_data :: "py_error + (string \<times> float64) list" where
  "node_data =
     bind (getitem PRODUCTS ''iPhone'') (\<lambda>iPhone.
     bind (getitem PRODUCTS ''Mac'') (\<lambda>Mac.
     bind (getitem PRODUCTS ''iPad'') (\<lambda>iPad.
     bind (getitem PRODUCTS ''Wearables'') (\<lambda>Wearables.
     Inr [(''iPhone'', iPhone),
          (''Mac'', Mac),
          (''iPad'', iPad),
          (''Wearables'', Wearables),
          (''Revenue'', REVENUE),
          (''Gross Profit'', GROSS_PROFIT),
          (''COGS'', COGS),
          (''Operating Profit'', OPERATING_PROFIT),
          (''Operating Expenses'', OPERATING_EXPENSES),
          (''Net Profit'', NET_PROFIT),
          (''Taxes'', TAXES),
          (''Other'', OTHER),
          (''Industrial'', INDUSTRIAL),
          (''Commercial'', COMMERCIAL),
          (''Administrative'', ADMINISTRATIVE),
          (''R & D'', R_AND_D),
          (''Headqtr.'', HEADQTR),
          (''Depreciation'', DEPRECIATION),
          (''Raw Material'', RAW_MATERIAL),
          (''Labor Costs'', LABOR_COSTS),
          (''Other Costs'', OTHER_COGS)]))))"

text \<open>The label of a node: the f-string of the comprehension over \<open>node_data\<close>.\<close>

definition label :: "string \<Rightarrow> float64 \<Rightarrow> string" where
  "label name val = ''<b>'' @ name @ ''</b><br><b>$'' @ format_2f val @ ''M</b>''"

text \<open>The local list \<open>node_colors\<close>, one palette lookup per node.\<close>

definition node_color_list :: "py_error + string list" where
  "node_color_list =
     map_result (getitem COLORS)
       [''blue'', ''blue'', ''blue'', ''blue'', ''blue'',
        ''green'', ''red'',
        ''green'', ''red'',
        ''green'', ''red'', ''green'',
        ''red'', ''red'', ''red'', ''red'', ''red'', ''red'',
        ''red'', ''red'', ''red'']"

text \<open>The local list \<open>links\<close>: source index, target index and value of each link.\<close>

definition links :: "py_error + (int \<times> int \<times> float64) list" where
  "links =
     bind (getitem PRODUCTS ''iPhone'') (\<lambda>iPhone.
     bind (getitem PRODUCTS ''Mac'') (\<lambda>Mac.
     bind (getitem PRODUCTS ''iPad'') (\<lambda>iPad.
     bind (getitem PRODUCTS ''Wearables'') (\<lambda>Wearables.
     Inr [(0, 4, iPhone),
          (1, 4, Mac),
          (2, 4, iPad),
          (3, 4, Wearables),
          (4, 5, GROSS_PROFIT),
          (4, 6, COGS),
          (5, 7, OPERATING_PROFIT),
          (5, 8, OPERATING_EXPENSES),
          (7, 9, NET_PROFIT),
          (7, 10, TAXES),
          (7, 11, OTHER),
          (8, 12, INDUSTRIAL),
          (8, 13, COMMERCIAL),
          (8, 14, ADMINISTRATIVE),
          (8, 15, R_AND_D),
          (8, 16, HEADQTR),
          (8, 17, DEPRECIATION),
          (6, 18, RAW_MATERIAL),
          (6, 19, LABOR_COSTS),
          (6, 20, OTHER_COGS)]))))"

text \<open>
  The rest of the function body: the label comprehension, the unpacking of the links
  and the link colours, each the colour of the link's target node at alpha \<open>0.5\<close>.
\<close>

definition link_color :: "string list \<Rightarrow> int \<Rightarrow> py_error + string" where
  "link_color colors t = bind (getindex colors t) (\<lambda>c. hex_to_rgba c ''0.5'')"

definition assemble ::
  "(string \<times> float64) list \<Rightarrow> string list \<Rightarrow> (int \<times> int \<times> float64) list
     \<Rightarrow> py_error + sankey_data" where
  "assemble nodes colors lnks =
     (let lbls = map (\<lambda>(name, val). label name val) nodes;
          srcs = map (\<lambda>(s, t, v). s) lnks;
          tgts = map (\<lambda>(s, t, v). t) lnks;
          vs = map (\<lambda>(s, t, v). v) lnks
      in bind (map_result (link_color colors) tgts) (\<lambda>lcs.
         Inr \<lparr>labels = lbls, node_colors = colors, sources = srcs, targets = tgts,
              vals = vs, link_colors = lcs\<rparr>))"

definition build_sankey_data :: "py_error + sankey_data" where
  "build_sankey_data =
     bind node_data (\<lambda>nodes.
     bind node_color_list (\<lambda>colors.
     bind links (\<lambda>lnks.
     assemble nodes colors lnks)))"

section \<open>The exporter\<close>

text \<open>
  What \<open>main\<close> does to its surroundings: it creates the output directory, hands the
  figure to the writers of the charting library, prints a line per file and opens the
  preview. The world is the part of the file system the script touches, together with
  the sequence of these effects. The charting library is not part of the script: its
  two writers are taken to create or overwrite the file at the path they are given, and
  to fail only when that path is a directory.
\<close>

datatype entry = Directory | Regular

datatype effect = WriteHtml string | WriteImage string nat | Print string | Show

record world =
  entries :: "string \<rightharpoonup> entry"
  trace :: "effect list"

definition OUTPUT_FORMAT :: string where "OUTPUT_FORMAT = ''both''"

text \<open>
  \<open>Path.mkdir(exist_ok=True)\<close> on a path of one component: an existing directory is
  left as it is, an existing file of another kind raises \<open>FileExistsError\<close>.
\<close>

definition mkdir_exist_ok :: "string \<Rightarrow> world \<Rightarrow> py_error + world" where
  "mkdir_exist_ok p w =
     (case entries w p of
        None \<Rightarrow> Inr (w\<lparr>entries := (entries w)(p \<mapsto> Directory)\<rparr>)
      | Some Directory \<Rightarrow> Inr w
      | Some Regular \<Rightarrow> Inl FileExistsError)"








section \<open>Flows through a node\<close>

text \<open>
  The values of the links that end in node \<open>k\<close>, and of the links that start from it.
  The script never forms these lists; they state what it would mean for the figures to
  balance. \<open>thousandths\<close> reads a finite float to the nearest thousandth, which gives
  back the three decimals of a figure as the source writes it.
\<close>

definition incoming :: "sankey_data \<Rightarrow> int \<Rightarrow> float64 list" where
  "incoming d k = map snd (filter (\<lambda>(t, v). t = k) (zip (targets d) (vals d)))"

definition outgoing :: "sankey_data \<Rightarrow> int \<Rightarrow> float64 list" where
  "outgoing d k = map snd (filter (\<lambda>(s, v). s = k) (zip (sources d) (vals d)))"

fun thousandths :: "float64 \<Rightarrow> int" where
  "thousandths (Dbl m e) = (let (p, q) = scale 1 e in round_half_even (m * 1000 * q) p)"
| "thousandths NegZero = 0"

section \<open>The assembled data\<close>

text \<open>
  The function takes no argument, so its result is one value. The lemmas below compute
  it piece by piece; labels and figures are kept symbolic here.
\<close>

lemma node_data_value:
  "node_data =
     Inr [(''iPhone'', float_literal 470 1),
          (''Mac'', float_literal 92 1),
          (''iPad'', float_literal 67 1),
          (''Wearables'', float_literal 9377 3),
          (''Revenue'', REVENUE),
          (''Gross Profit'', GROSS_PROFIT),
          (''COGS'', COGS),
          (''Operating Profit'', OPERATING_PROFIT),
          (''Operating Expenses'', OPERATING_EXPENSES),
          (''Net Profit'', NET_PROFIT),
          (''Taxes'', TAXES),
          (''Other'', OTHER),
          (''Industrial'', INDUSTRIAL),
          (''Commercial'', COMMERCIAL),
          (''Administrative'', ADMINISTRATIVE),
          (''R & D'', R_AND_D),
          (''Headqtr.'', HEADQTR),
          (''Depreciation'', DEPRECIATION),
          (''Raw Material'', RAW_MATERIAL),
          (''Labor Costs'', LABOR_COSTS),
          (''Other Costs'', OTHER_COGS)]"
  by (simp add: node_data_def getitem_def PRODUCTS_def bind_def)

lemma node_color_list_value:
  "node_color_list =
     Inr [''#4A90D9'', ''#4A90D9'', ''#4A90D9'', ''#4A90D9'', ''#4A90D9'',
          ''#27AE60'', ''#C0392B'',
          ''#27AE60'', ''#C0392B'',
          ''#27AE60'', ''#C0392B'', ''#27AE60'',
          ''#C0392B'', ''#C0392B'', ''#C0392B'', ''#C0392B'', ''#C0392B'', ''#C0392B'',
          ''#C0392B'', ''#C0392B'', ''#C0392B'']"
  by (simp add: node_color_list_def getitem_def COLORS_def bind_def)

lemma links_value:
  "links =
     Inr [(0, 4, float_literal 470 1),
          (1, 4, float_literal 92 1),
          (2, 4, float_literal 67 1),
          (3, 4, float_literal 9377 3),
          (4, 5, GROSS_PROFIT),
          (4, 6, COGS),
          (5, 7, OPERATING_PROFIT),
          (5, 8, OPERATING_EXPENSES),
          (7, 9, NET_PROFIT),
          (7, 10, TAXES),
          (7, 11, OTHER),
          (8, 12, INDUSTRIAL),
          (8, 13, COMMERCIAL),
          (8, 14, ADMINISTRATIVE),
          (8, 15, R_AND_D),
          (8, 16, HEADQTR),
          (8, 17, DEPRECIATION),
          (6, 18, RAW_MATERIAL),
          (6, 19, LABOR_COSTS),
          (6, 20, OTHER_COGS)]"
  by (simp add: links_def getitem_def PRODUCTS_def bind_def)

lemma rgba_blue: "hex_to_rgba ''#4A90D9'' ''0.5'' = Inr ''rgba(74, 144, 217, 0.5)''"
  by code_simp

lemma rgba_green: "hex_to_rgba ''#27AE60'' ''0.5'' = Inr ''rgba(39, 174, 96, 0.5)''"
  by code_simp

lemma rgba_red: "hex_to_rgba ''#C0392B'' ''0.5'' = Inr ''rgba(192, 57, 43, 0.5)''"
  by code_simp

lemma build_sankey_data_value:
  "build_sankey_data =
     Inr \<lparr>labels =
            [label ''iPhone'' (float_literal 470 1),
             label ''Mac'' (float_literal 92 1),
             label ''iPad'' (float_literal 67 1),
             label ''Wearables'' (float_literal 9377 3),
             label ''Revenue'' REVENUE,
             label ''Gross Profit'' GROSS_PROFIT,
             label ''COGS'' COGS,
             label ''Operating Profit'' OPERATING_PROFIT,
             label ''Operating Expenses'' OPERATING_EXPENSES,
             label ''Net Profit'' NET_PROFIT,
             label ''Taxes'' TAXES,
             label ''Other'' OTHER,
             label ''Industrial'' INDUSTRIAL,
             label ''Commercial'' COMMERCIAL,
             label ''Administrative'' ADMINISTRATIVE,
             label ''R & D'' R_AND_D,
             label ''Headqtr.'' HEADQTR,
             label ''Depreciation'' DEPRECIATION,
             label ''Raw Material'' RAW_MATERIAL,
             label ''Labor Costs'' LABOR_COSTS,
             label ''Other Costs'' OTHER_COGS],
          node_colors =
            [''#4A90D9'', ''#4A90D9'', ''#4A90D9'', ''#4A90D9'', ''#4A90D9'',
             ''#27AE60'', ''#C0392B'',
             ''#27AE60'', ''#C0392B'',
             ''#27AE60'', ''#C0392B'', ''#27AE60'',
             ''#C0392B'', ''#C0392B'', ''#C0392B'', ''#C0392B'', ''#C0392B'', ''#C0392B'',
             ''#C0392B'', ''#C0392B'', ''#C0392B''],
          sources = [0, 1, 2, 3, 4, 4, 5, 5, 7, 7, 7, 8, 8, 8, 8, 8, 8, 6, 6, 6],
          targets = [4, 4, 4, 4, 5, 6, 7, 8, 9, 10, 11, 12, 13, 14, 15, 16, 17, 18, 19, 20],
          vals =
            [float_literal 470 1, float_literal 92 1, float_literal 67 1,
             float_literal 9377 3, GROSS_PROFIT, COGS, OPERATING_PROFIT,
             OPERATING_EXPENSES, NET_PROFIT, TAXES, OTHER, INDUSTRIAL, COMMERCIAL,
             ADMINISTRATIVE, R_AND_D, HEADQTR, DEPRECIATION, RAW_MATERIAL, LABOR_COSTS,
             OTHER_COGS],
          link_colors =
            [''rgba(74, 144, 217, 0.5)'', ''rgba(74, 144, 217, 0.5)'',
             ''rgba(74, 144, 217, 0.5)'', ''rgba(74, 144, 217, 0.5)'',
             ''rgba(39, 174, 96, 0.5)'', ''rgba(192, 57, 43, 0.5)'',
             ''rgba(39, 174, 96, 0.5)'', ''rgba(192, 57, 43, 0.5)'',
             ''rgba(39, 174, 96, 0.5)'', ''rgba(192, 57, 43, 0.5)'',
             ''rgba(39, 174, 96, 0.5)'',
             ''rgba(192, 57, 43, 0.5)'', ''rgba(192, 57, 43, 0.5)'',
             ''rgba(192, 57, 43, 0.5)'', ''rgba(192, 57, 43, 0.5)'',
             ''rgba(192, 57, 43, 0.5)'', ''rgba(192, 57, 43, 0.5)'',
             ''rgba(192, 57, 43, 0.5)'', ''rgba(192, 57, 43, 0.5)'',
             ''rgba(192, 57, 43, 0.5)'']\<rparr>"
  unfolding build_sankey_data_def node_data_value node_color_list_value links_value
  by (simp add: bind_def assemble_def link_color_def getindex_def rgba_blue rgba_green rgba_red)

lemma map_result_length: "map_result f xs = Inr ys \<Longrightarrow> length ys = length xs"
proof (induction xs arbitrary: ys)
  case Nil
  then show ?case by simp
next
  case (Cons x xs)
  from Cons.prems obtain y ys' where "map_result f xs = Inr ys'" and "ys = y # ys'"
    by (auto simp: bind_def split: sum.splits)
  with Cons.IH show ?case by simp
qed

lemma assemble_lengths:
  assumes "assemble nodes colors lnks = Inr d"
  shows "length (labels d) = length nodes \<and> node_colors d = colors
    \<and> length (sources d) = length lnks \<and> length (targets d) = length lnks
    \<and> length (vals d) = length lnks \<and> length (link_colors d) = length lnks"
proof -
  from assms obtain lcs where
    lcs: "map_result (link_color colors) (map (\<lambda>(s, t, v). t) lnks) = Inr lcs" and
    d: "d = \<lparr>labels = map (\<lambda>(name, val). label name val) nodes, node_colors = colors,
            sources = map (\<lambda>(s, t, v). s) lnks, targets = map (\<lambda>(s, t, v). t) lnks,
            vals = map (\<lambda>(s, t, v). v) lnks, link_colors = lcs\<rparr>"
    by (auto simp: assemble_def bind_def Let_def split: sum.splits)
  from map_result_length [OF lcs] have "length lcs = length lnks" by simp
  with d show ?thesis by simp
qed

lemma acyclic_int_less: "acyclic {(a :: int, b). a < b}"
proof -
  have "trans {(a :: int, b). a < b}"
    by (auto simp: trans_def)
  then have "{(a :: int, b). a < b}\<^sup>+ = {(a, b). a < b}"
    by (rule trancl_id)
  then show ?thesis
    by (simp add: acyclic_def)
qed

section \<open>Properties of the assembled graph\<close>

text \<open>
  Claim C1, as amended. The assembler returns 21 nodes and 20 links (not 19): four
  links from the products into Revenue and one link into each of the sixteen nodes
  after it. The returned labels and node colours follow the declaration order of the
  nodes, products first, then Revenue, then each breakdown level outward, and each link
  names its two nodes by position in these lists: read through the node list, the links
  are the pairs of names given below.
\<close>

theorem build_sankey_data_shape:
  "\<exists>nodes d. node_data = Inr nodes \<and> build_sankey_data = Inr d
     \<and> length nodes = 21 \<and> length (labels d) = 21 \<and> length (node_colors d) = 21
     \<and> length (sources d) = 20 \<and> length (targets d) = 20 \<and> length (vals d) = 20
     \<and> map fst nodes =
         [''iPhone'', ''Mac'', ''iPad'', ''Wearables'', ''Revenue'', ''Gross Profit'',
          ''COGS'', ''Operating Profit'', ''Operating Expenses'', ''Net Profit'', ''Taxes'',
          ''Other'', ''Industrial'', ''Commercial'', ''Administrative'', ''R & D'',
          ''Headqtr.'', ''Depreciation'', ''Raw Material'', ''Labor Costs'', ''Other Costs'']
     \<and> labels d = map (\<lambda>(name, val). label name val) nodes
     \<and> node_colors d =
         [''#4A90D9'', ''#4A90D9'', ''#4A90D9'', ''#4A90D9'', ''#4A90D9'',
          ''#27AE60'', ''#C0392B'',
          ''#27AE60'', ''#C0392B'',
          ''#27AE60'', ''#C0392B'', ''#27AE60'',
          ''#C0392B'', ''#C0392B'', ''#C0392B'', ''#C0392B'', ''#C0392B'', ''#C0392B'',
          ''#C0392B'', ''#C0392B'', ''#C0392B'']
     \<and> sources d = [0, 1, 2, 3, 4, 4, 5, 5, 7, 7, 7, 8, 8, 8, 8, 8, 8, 6, 6, 6]
     \<and> targets d = [4, 4, 4, 4, 5, 6, 7, 8, 9, 10, 11, 12, 13, 14, 15, 16, 17, 18, 19, 20]
     \<and> map (\<lambda>(s, t). (map fst nodes ! nat s, map fst nodes ! nat t))
           (zip (sources d) (targets d)) =
         [(''iPhone'', ''Revenue''), (''Mac'', ''Revenue''), (''iPad'', ''Revenue''),
          (''Wearables'', ''Revenue''),
          (''Revenue'', ''Gross Profit''), (''Revenue'', ''COGS''),
          (''Gross Profit'', ''Operating Profit''),
          (''Gross Profit'', ''Operating Expenses''),
          (''Operating Profit'', ''Net Profit''), (''Operating Profit'', ''Taxes''),
          (''Operating Profit'', ''Other''),
          (''Operating Expenses'', ''Industrial''),
          (''Operating Expenses'', ''Commercial''),
          (''Operating Expenses'', ''Administrative''),
          (''Operating Expenses'', ''R & D''),
          (''Operating Expenses'', ''Headqtr.''),
          (''Operating Expenses'', ''Depreciation''),
          (''COGS'', ''Raw Material''), (''COGS'', ''Labor Costs''),
          (''COGS'', ''Other Costs'')]
     \<and> map (\<lambda>(s, t). (labels d ! nat s, labels d ! nat t)) (zip (sources d) (targets d)) =
         map (\<lambda>(s, t). (case nodes ! nat s of (name, val) \<Rightarrow> label name val,
                         case nodes ! nat t of (name, val) \<Rightarrow> label name val))
           (zip (sources d) (targets d))"
  unfolding node_data_value build_sankey_data_value
  by simp

text \<open>
  Claim C1 as it was stated fails on the number of links: the assembler returns a
  value, and its list of sources has 20 entries, not 19.
\<close>

theorem build_sankey_data_not_19_links:
  "\<not> isl build_sankey_data
     \<and> length (sources (projr build_sankey_data)) = 20
     \<and> length (sources (projr build_sankey_data)) \<noteq> 19"
  unfolding build_sankey_data_value
  by simp

text \<open>
  Claim C8. Every link of the assembled data has a source and a target that are
  positions of the 21-entry node list, counted from 0, with the source strictly below
  the target. So the lookup of the target's colour is in range for every link (no
  lookup raises \<open>IndexError\<close>), and the links, as a relation on positions, have no cycle.
\<close>

theorem build_sankey_data_indices:
  "\<exists>d. build_sankey_data = Inr d
     \<and> length (labels d) = 21 \<and> length (node_colors d) = 21
     \<and> list_all (\<lambda>(s, t). 0 \<le> s \<and> s < t \<and> t < 21) (zip (sources d) (targets d))
     \<and> list_all (\<lambda>t. getindex (node_colors d) t = Inr (node_colors d ! nat t)) (targets d)
     \<and> acyclic (set (zip (sources d) (targets d)))"
proof -
  let ?d = "projr build_sankey_data"
  have val: "build_sankey_data = Inr ?d"
    unfolding build_sankey_data_value by simp
  have lens: "length (labels ?d) = 21 \<and> length (node_colors ?d) = 21"
    unfolding build_sankey_data_value by simp
  have range: "list_all (\<lambda>(s, t). 0 \<le> s \<and> s < t \<and> t < 21) (zip (sources ?d) (targets ?d))"
    unfolding build_sankey_data_value by simp
  have lookup:
    "list_all (\<lambda>t. getindex (node_colors ?d) t = Inr (node_colors ?d ! nat t)) (targets ?d)"
    unfolding build_sankey_data_value by (simp add: getindex_def)
  from range have "set (zip (sources ?d) (targets ?d)) \<subseteq> {(a, b). a < b}"
    by (auto simp: list_all_iff)
  with acyclic_int_less have "acyclic (set (zip (sources ?d) (targets ?d)))"
    by (rule acyclic_subset)
  with val lens range lookup show ?thesis
    by blast
qed

text \<open>
  Claim C10. The lists of the returned dictionary are parallel: the labels and the
  node colours are as many as the nodes, and the sources, targets, values and link
  colours are as many as the links.
\<close>

theorem build_sankey_data_parallel_lists:
  "\<exists>nodes lnks d. node_data = Inr nodes \<and> links = Inr lnks \<and> build_sankey_data = Inr d
     \<and> length (labels d) = length nodes \<and> length (node_colors d) = length nodes
     \<and> length (sources d) = length lnks \<and> length (targets d) = length lnks
     \<and> length (vals d) = length lnks \<and> length (link_colors d) = length lnks"
proof -
  obtain nodes where nodes: "node_data = Inr nodes" and n21: "length nodes = 21"
    unfolding node_data_value by simp
  obtain colors where colors: "node_color_list = Inr colors" and c21: "length colors = 21"
    unfolding node_color_list_value by simp
  obtain lnks where lnks: "links = Inr lnks"
    unfolding links_value by simp
  obtain d where d: "build_sankey_data = Inr d"
    unfolding build_sankey_data_value by simp
  have "assemble nodes colors lnks = Inr d"
    using d unfolding build_sankey_data_def nodes colors lnks
    by (simp add: bind_def)
  from assemble_lengths [OF this] n21 c21
  have "length (labels d) = length nodes \<and> length (node_colors d) = length nodes
      \<and> length (sources d) = length lnks \<and> length (targets d) = length lnks
      \<and> length (vals d) = length lnks \<and> length (link_colors d) = length lnks"
    by simp
  with nodes lnks d show ?thesis
    by blast
qed

section \<open>The figures\<close>

lemma REVENUE_value: "REVENUE = float_literal 72277 3"
  by code_simp

lemma REVENUE_compensated: "py_sum_compensated (map snd PRODUCTS) = float_literal 72277 3"
  by code_simp

lemma thousandths_values:
  "thousandths (float_literal 470 1) = 47000"
  "thousandths (float_literal 92 1) = 9200"
  "thousandths (float_literal 67 1) = 6700"
  "thousandths (float_literal 9377 3) = 9377"
  "thousandths GROSS_PROFIT = 27898"
  "thousandths COGS = 44379"
  "thousandths OPERATING_PROFIT = 7699"
  "thousandths OPERATING_EXPENSES = 20199"
  "thousandths NET_PROFIT = 5638"
  "thousandths TAXES = 2118"
  "thousandths OTHER = 56"
  "thousandths INDUSTRIAL = 6277"
  "thousandths COMMERCIAL = 8038"
  "thousandths ADMINISTRATIVE = 4069"
  "thousandths R_AND_D = 10"
  "thousandths HEADQTR = 936"
  "thousandths DEPRECIATION = 868"
  "thousandths RAW_MATERIAL = 37024"
  "thousandths LABOR_COSTS = 5365"
  "thousandths OTHER_COGS = 1990"
  by code_simp+

lemma float_sums:
  "py_sum [OPERATING_PROFIT] \<noteq> py_sum [NET_PROFIT, TAXES, OTHER]"
  "py_sum [OPERATING_EXPENSES]
     \<noteq> py_sum [INDUSTRIAL, COMMERCIAL, ADMINISTRATIVE, R_AND_D, HEADQTR, DEPRECIATION]"
  by code_simp+

text \<open>
  The incoming and outgoing values of the five inner nodes, read off the assembled data.
\<close>

lemma flows_value:
  "incoming (projr build_sankey_data) 4 =
     [float_literal 470 1, float_literal 92 1, float_literal 67 1, float_literal 9377 3]"
  "outgoing (projr build_sankey_data) 4 = [GROSS_PROFIT, COGS]"
  "incoming (projr build_sankey_data) 5 = [GROSS_PROFIT]"
  "outgoing (projr build_sankey_data) 5 = [OPERATING_PROFIT, OPERATING_EXPENSES]"
  "incoming (projr build_sankey_data) 6 = [COGS]"
  "outgoing (projr build_sankey_data) 6 = [RAW_MATERIAL, LABOR_COSTS, OTHER_COGS]"
  "incoming (projr build_sankey_data) 7 = [OPERATING_PROFIT]"
  "outgoing (projr build_sankey_data) 7 = [NET_PROFIT, TAXES, OTHER]"
  "incoming (projr build_sankey_data) 8 = [OPERATING_EXPENSES]"
  "outgoing (projr build_sankey_data) 8 =
     [INDUSTRIAL, COMMERCIAL, ADMINISTRATIVE, R_AND_D, HEADQTR, DEPRECIATION]"
  unfolding build_sankey_data_value incoming_def outgoing_def
  by simp_all

text \<open>
  Claim C4. The revenue figure is the sum of the four product figures, added as Python
  adds floats, from left to right starting at 0; with the literal inputs 47.0, 9.2, 6.7
  and 9.377 this sum is exactly the float that the literal 72.277 denotes. The
  compensated summation of later Python versions gives the same float.
\<close>

theorem REVENUE_is_sum_of_products:
  "REVENUE = py_sum (map snd PRODUCTS)
     \<and> map snd PRODUCTS =
         [float_literal 470 1, float_literal 92 1, float_literal 67 1, float_literal 9377 3]
     \<and> REVENUE =
         fadd (fadd (fadd (fadd (Dbl 0 0) (float_literal 470 1)) (float_literal 92 1))
           (float_literal 67 1)) (float_literal 9377 3)
     \<and> REVENUE = float_literal 72277 3
     \<and> py_sum_compensated (map snd PRODUCTS) = float_literal 72277 3"
proof -
  have products: "map snd PRODUCTS =
      [float_literal 470 1, float_literal 92 1, float_literal 67 1, float_literal 9377 3]"
    by (simp add: PRODUCTS_def)
  have unfolded: "REVENUE =
      fadd (fadd (fadd (fadd (Dbl 0 0) (float_literal 470 1)) (float_literal 92 1))
        (float_literal 67 1)) (float_literal 9377 3)"
    unfolding REVENUE_def products py_sum_def by simp
  from products unfolded REVENUE_value REVENUE_compensated show ?thesis
    by (simp add: REVENUE_def)
qed

lemma compensated_sums:
  "py_sum_compensated [OPERATING_PROFIT] \<noteq> py_sum_compensated [NET_PROFIT, TAXES, OTHER]"
  "py_sum_compensated [OPERATING_EXPENSES]
     \<noteq> py_sum_compensated
         [INDUSTRIAL, COMMERCIAL, ADMINISTRATIVE, R_AND_D, HEADQTR, DEPRECIATION]"
  by code_simp+

text \<open>
  Claim C2 fails on the figures of the script. With every link value read to the three
  decimals the source writes (in thousandths), what flows into Revenue, Gross Profit
  and COGS equals what flows out of them, to the last digit. At Operating Profit, node
  7, the one link in carries 7.699 and the three links out carry
  5.638 + 2.118 + 0.056 = 7.812; at Operating Expenses, node 8, 20.199 flows in and
  20.198 flows out. At these two nodes the sums also differ as Python floats, whichever
  way \<open>sum\<close> adds them.
\<close>

theorem flow_not_conserved:
  "\<exists>d. build_sankey_data = Inr d
     \<and> map thousandths (incoming d 7) = [7699]
     \<and> map thousandths (outgoing d 7) = [5638, 2118, 56]
     \<and> sum_list (map thousandths (incoming d 7)) = 7699
     \<and> sum_list (map thousandths (outgoing d 7)) = 7812
     \<and> py_sum (incoming d 7) \<noteq> py_sum (outgoing d 7)
     \<and> py_sum_compensated (incoming d 7) \<noteq> py_sum_compensated (outgoing d 7)
     \<and> map thousandths (incoming d 8) = [20199]
     \<and> map thousandths (outgoing d 8) = [6277, 8038, 4069, 10, 936, 868]
     \<and> sum_list (map thousandths (incoming d 8)) = 20199
     \<and> sum_list (map thousandths (outgoing d 8)) = 20198
     \<and> py_sum (incoming d 8) \<noteq> py_sum (outgoing d 8)
     \<and> py_sum_compensated (incoming d 8) \<noteq> py_sum_compensated (outgoing d 8)
     \<and> sum_list (map thousandths (incoming d 4)) = 72277
     \<and> sum_list (map thousandths (outgoing d 4)) = 72277
     \<and> sum_list (map thousandths (incoming d 5)) = 27898
     \<and> sum_list (map thousandths (outgoing d 5)) = 27898
     \<and> sum_list (map thousandths (incoming d 6)) = 44379
     \<and> sum_list (map thousandths (outgoing d 6)) = 44379"
proof -
  let ?d = "projr build_sankey_data"
  have ret: "build_sankey_data = Inr ?d"
    unfolding build_sankey_data_value by simp
  have parts: "map thousandths (incoming ?d 7) = [7699]"
    "map thousandths (outgoing ?d 7) = [5638, 2118, 56]"
    "map thousandths (incoming ?d 8) = [20199]"
    "map thousandths (outgoing ?d 8) = [6277, 8038, 4069, 10, 936, 868]"
    unfolding flows_value list.map thousandths_values by simp_all
  have sums: "sum_list (map thousandths (incoming ?d 7)) = 7699"
    "sum_list (map thousandths (outgoing ?d 7)) = 7812"
    "sum_list (map thousandths (incoming ?d 8)) = 20199"
    "sum_list (map thousandths (outgoing ?d 8)) = 20198"
    "sum_list (map thousandths (incoming ?d 4)) = 72277"
    "sum_list (map thousandths (outgoing ?d 4)) = 72277"
    "sum_list (map thousandths (incoming ?d 5)) = 27898"
    "sum_list (map thousandths (outgoing ?d 5)) = 27898"
    "sum_list (map thousandths (incoming ?d 6)) = 44379"
    "sum_list (map thousandths (outgoing ?d 6)) = 44379"
    unfolding flows_value list.map thousandths_values by simp_all
  have floats: "py_sum (incoming ?d 7) \<noteq> py_sum (outgoing ?d 7)"
    "py_sum (incoming ?d 8) \<noteq> py_sum (outgoing ?d 8)"
    unfolding flows_value by (rule float_sums)+
  have compensated:
    "py_sum_compensated (incoming ?d 7) \<noteq> py_sum_compensated (outgoing ?d 7)"
    "py_sum_compensated (incoming ?d 8) \<noteq> py_sum_compensated (outgoing ?d 8)"
    unfolding flows_value by (rule compensated_sums)+
  show ?thesis
    by (rule exI [of _ ?d]) (intro conjI ret parts sums floats compensated)
qed

section \<open>Parsing a colour\<close>

lemma hex_digit_facts:
  assumes "is_hex_digit c"
  shows "\<not> is_space c" and "c \<noteq> CHR ''+''" and "c \<noteq> CHR ''-''" and "c \<noteq> CHR ''_''"
    and "c \<noteq> CHR ''x''" and "c \<noteq> CHR ''X''" and "c \<noteq> CHR ''#''"
    and "is_digit_or_underscore c"
  using assms
  by (auto simp: is_hex_digit_def digit_value_def is_space_def is_digit_or_underscore_def
      Let_def split: if_splits)

lemma py_int16_two_hex:
  assumes a: "is_hex_digit a" and b: "is_hex_digit b"
  shows "py_int16 [a, b] = Inr (16 * the (digit_value a) + the (digit_value b))"
proof -
  from a b obtain da db where da: "digit_value a = Some da" and db: "digit_value b = Some db"
    by (auto simp: is_hex_digit_def)
  have sign: "strip_sign [a, b] = (False, [a, b])"
    using hex_digit_facts(2,3) [OF a] by (simp add: strip_sign_def)
  have prefix: "strip_prefix [a, b] = [a, b]"
    using hex_digit_facts(5,6) [OF b] by (simp add: strip_prefix_def)
  have body: "takeWhile is_digit_or_underscore [a, b] = [a, b]"
    and rest: "dropWhile is_digit_or_underscore [a, b] = []"
    using hex_digit_facts(8) [OF a] hex_digit_facts(8) [OF b] by simp_all
  have blanks: "dropWhile is_space [a, b] = [a, b]"
    using hex_digit_facts(1) [OF a] by simp
  have "py_int16 [a, b] =
      (if [a, b] = [] \<or> hd [a, b] = CHR ''_'' \<or> last [a, b] = CHR ''_''
          \<or> double_underscore [a, b] \<or> \<not> list_all is_space []
       then Inl ValueError
       else Inr ((if False then - 1 else 1) * hex_value [a, b]))"
    unfolding py_int16_def blanks sign prod.case Let_def prefix body rest ..
  also have "\<dots> = Inr (16 * da + db)"
    using hex_digit_facts(4) [OF a] hex_digit_facts(4) [OF b]
    by (simp add: hex_value_def da db)
  finally show ?thesis
    by (simp add: da db)
qed

lemma lstrip_hash_replicate:
  assumes "c \<noteq> CHR ''#''"
  shows "lstrip_hash (replicate n (CHR ''#'') @ c # cs) = c # cs"
  using assms by (induction n) (simp_all add: lstrip_hash_def)

lemma hex_to_rgba_six:
  assumes "is_hex_digit a" "is_hex_digit b" "is_hex_digit c"
    "is_hex_digit d" "is_hex_digit e" "is_hex_digit f"
    and "lstrip_hash s = a # b # c # d # e # f # extra"
  shows "hex_to_rgba s alpha =
     Inr (''rgba('' @ str_int (16 * the (digit_value a) + the (digit_value b)) @ '', ''
          @ str_int (16 * the (digit_value c) + the (digit_value d)) @ '', ''
          @ str_int (16 * the (digit_value e) + the (digit_value f)) @ '', ''
          @ alpha @ '')'')"
  using assms
  by (simp add: hex_to_rgba_def slice2_def bind_def py_int16_two_hex)








text \<open>
  Claim C9. \<open>hex_to_rgba\<close> strips every leading \<^verbatim>\<open>#\<close>, however many there are, and
  reads the next six characters only: whenever these are hexadecimal digits the call
  succeeds with the three bytes they spell, whatever follows them. An eight-digit
  colour is accepted and its last two digits are ignored.
\<close>

theorem hex_to_rgba_ignores_extra:
  assumes "is_hex_digit a" "is_hex_digit b" "is_hex_digit c"
    "is_hex_digit d" "is_hex_digit e" "is_hex_digit f"
  shows "hex_to_rgba (replicate n (CHR ''#'') @ [a, b, c, d, e, f] @ extra) alpha =
     Inr (''rgba('' @ str_int (16 * the (digit_value a) + the (digit_value b)) @ '', ''
          @ str_int (16 * the (digit_value c) + the (digit_value d)) @ '', ''
          @ str_int (16 * the (digit_value e) + the (digit_value f)) @ '', ''
          @ alpha @ '')'')"
proof -
  from assms(1) have "a \<noteq> CHR ''#''"
    by (rule hex_digit_facts)
  then have "lstrip_hash (replicate n (CHR ''#'') @ [a, b, c, d, e, f] @ extra) =
      a # b # c # d # e # f # extra"
    using lstrip_hash_replicate [of a n "b # c # d # e # f # extra"] by simp
  with assms show ?thesis
    by (rule hex_to_rgba_six)
qed

theorem hex_to_rgba_ignores_extra_witness:
  "is_hex_digit CHR ''4'' \<and> is_hex_digit CHR ''A'' \<and> is_hex_digit CHR ''9''
     \<and> is_hex_digit CHR ''0'' \<and> is_hex_digit CHR ''D''
     \<and> hex_to_rgba ''##4A90D9FF'' ''0.5'' = Inr ''rgba(74, 144, 217, 0.5)''"
proof -
  have digits: "is_hex_digit CHR ''4''" "is_hex_digit CHR ''A''" "is_hex_digit CHR ''9''"
    "is_hex_digit CHR ''0''" "is_hex_digit CHR ''D''"
    by (simp_all add: is_hex_digit_def digit_value_def)
  have texts: "str_int 74 = ''74''" "str_int 144 = ''144''" "str_int 217 = ''217''"
    by code_simp+
  have "hex_to_rgba (replicate 2 (CHR ''#'') @ ''4A90D9'' @ ''FF'') ''0.5'' =
      Inr (''rgba('' @ str_int 74 @ '', '' @ str_int 144 @ '', '' @ str_int 217 @ '', ''
           @ ''0.5'' @ '')'')"
    using hex_to_rgba_ignores_extra
      [of "CHR ''4''" "CHR ''A''" "CHR ''9''" "CHR ''0''" "CHR ''D''" "CHR ''9''" 2 "''FF''"
        "''0.5''"]
      digits
    by (simp add: digit_value_def)
  then have "hex_to_rgba ''##4A90D9FF'' ''0.5'' = Inr ''rgba(74, 144, 217, 0.5)''"
    unfolding texts by (simp add: numeral_2_eq_2)
  with digits show ?thesis
    by simp
qed





section \<open>The labels\<close>

lemma format_values:
  "format_2f (float_literal 470 1) = ''47.00''"
  "format_2f (float_literal 92 1) = ''9.20''"
  "format_2f (float_literal 67 1) = ''6.70''"
  "format_2f (float_literal 9377 3) = ''9.38''"
  "format_2f REVENUE = ''72.28''"
  "format_2f GROSS_PROFIT = ''27.90''"
  "format_2f COGS = ''44.38''"
  "format_2f OPERATING_PROFIT = ''7.70''"
  "format_2f OPERATING_EXPENSES = ''20.20''"
  "format_2f NET_PROFIT = ''5.64''"
  "format_2f TAXES = ''2.12''"
  "format_2f OTHER = ''0.06''"
  "format_2f INDUSTRIAL = ''6.28''"
  "format_2f COMMERCIAL = ''8.04''"
  "format_2f ADMINISTRATIVE = ''4.07''"
  "format_2f R_AND_D = ''0.01''"
  "format_2f HEADQTR = ''0.94''"
  "format_2f DEPRECIATION = ''0.87''"
  "format_2f RAW_MATERIAL = ''37.02''"
  "format_2f LABOR_COSTS = ''5.37''"
  "format_2f OTHER_COGS = ''1.99''"
  by code_simp+

lemma labels_value:
  "labels (projr build_sankey_data) =
     [''<b>iPhone</b><br><b>$47.00M</b>'',
      ''<b>Mac</b><br><b>$9.20M</b>'',
      ''<b>iPad</b><br><b>$6.70M</b>'',
      ''<b>Wearables</b><br><b>$9.38M</b>'',
      ''<b>Revenue</b><br><b>$72.28M</b>'',
      ''<b>Gross Profit</b><br><b>$27.90M</b>'',
      ''<b>COGS</b><br><b>$44.38M</b>'',
      ''<b>Operating Profit</b><br><b>$7.70M</b>'',
      ''<b>Operating Expenses</b><br><b>$20.20M</b>'',
      ''<b>Net Profit</b><br><b>$5.64M</b>'',
      ''<b>Taxes</b><br><b>$2.12M</b>'',
      ''<b>Other</b><br><b>$0.06M</b>'',
      ''<b>Industrial</b><br><b>$6.28M</b>'',
      ''<b>Commercial</b><br><b>$8.04M</b>'',
      ''<b>Administrative</b><br><b>$4.07M</b>'',
      ''<b>R & D</b><br><b>$0.01M</b>'',
      ''<b>Headqtr.</b><br><b>$0.94M</b>'',
      ''<b>Depreciation</b><br><b>$0.87M</b>'',
      ''<b>Raw Material</b><br><b>$37.02M</b>'',
      ''<b>Labor Costs</b><br><b>$5.37M</b>'',
      ''<b>Other Costs</b><br><b>$1.99M</b>'']"
  unfolding build_sankey_data_value sum.sel sankey_data.select_convs label_def format_values
  by simp

text \<open>
  Claim C6, as amended. The label of each of the 21 nodes is the HTML text
  \<^verbatim>\<open><b>name</b><br><b>$valueM</b>\<close>: the name and the value, each wrapped in \<^verbatim>\<open><b>\<close>
  tags, separated by the tag \<^verbatim>\<open><br>\<close> and not by a newline character, with the value
  printed with exactly two decimal digits.
\<close>

theorem labels_are_html:
  "\<exists>nodes d. node_data = Inr nodes \<and> build_sankey_data = Inr d
     \<and> length (labels d) = 21
     \<and> labels d =
         map (\<lambda>(name, val). ''<b>'' @ name @ ''</b><br><b>$'' @ format_2f val @ ''M</b>'')
           nodes
     \<and> map (\<lambda>(name, val). format_2f val) nodes =
         [''47.00'', ''9.20'', ''6.70'', ''9.38'', ''72.28'', ''27.90'', ''44.38'', ''7.70'',
          ''20.20'', ''5.64'', ''2.12'', ''0.06'', ''6.28'', ''8.04'', ''4.07'', ''0.01'',
          ''0.94'', ''0.87'', ''37.02'', ''5.37'', ''1.99'']
     \<and> labels d =
         [''<b>iPhone</b><br><b>$47.00M</b>'',
          ''<b>Mac</b><br><b>$9.20M</b>'',
          ''<b>iPad</b><br><b>$6.70M</b>'',
          ''<b>Wearables</b><br><b>$9.38M</b>'',
          ''<b>Revenue</b><br><b>$72.28M</b>'',
          ''<b>Gross Profit</b><br><b>$27.90M</b>'',
          ''<b>COGS</b><br><b>$44.38M</b>'',
          ''<b>Operating Profit</b><br><b>$7.70M</b>'',
          ''<b>Operating Expenses</b><br><b>$20.20M</b>'',
          ''<b>Net Profit</b><br><b>$5.64M</b>'',
          ''<b>Taxes</b><br><b>$2.12M</b>'',
          ''<b>Other</b><br><b>$0.06M</b>'',
          ''<b>Industrial</b><br><b>$6.28M</b>'',
          ''<b>Commercial</b><br><b>$8.04M</b>'',
          ''<b>Administrative</b><br><b>$4.07M</b>'',
          ''<b>R & D</b><br><b>$0.01M</b>'',
          ''<b>Headqtr.</b><br><b>$0.94M</b>'',
          ''<b>Depreciation</b><br><b>$0.87M</b>'',
          ''<b>Raw Material</b><br><b>$37.02M</b>'',
          ''<b>Labor Costs</b><br><b>$5.37M</b>'',
          ''<b>Other Costs</b><br><b>$1.99M</b>'']"
proof -
  let ?nodes = "projr node_data" and ?d = "projr build_sankey_data"
  have nodes: "node_data = Inr ?nodes"
    unfolding node_data_value by simp
  have ret: "build_sankey_data = Inr ?d"
    unfolding build_sankey_data_value by simp
  have len: "length (labels ?d) = 21"
    unfolding labels_value by simp
  have formats: "map (\<lambda>(name, val). format_2f val) ?nodes =
      [''47.00'', ''9.20'', ''6.70'', ''9.38'', ''72.28'', ''27.90'', ''44.38'', ''7.70'',
       ''20.20'', ''5.64'', ''2.12'', ''0.06'', ''6.28'', ''8.04'', ''4.07'', ''0.01'',
       ''0.94'', ''0.87'', ''37.02'', ''5.37'', ''1.99'']"
    unfolding node_data_value sum.sel list.map prod.case format_values ..
  have shape: "labels ?d =
      map (\<lambda>(name, val). ''<b>'' @ name @ ''</b><br><b>$'' @ format_2f val @ ''M</b>'')
        ?nodes"
    unfolding labels_value
    unfolding node_data_value sum.sel list.map prod.case format_values
    by simp
  show ?thesis
    by (rule exI [of _ ?nodes], rule exI [of _ ?d])
      (intro conjI nodes ret len shape formats labels_value)
qed

text \<open>
  Claim C6 as it was stated fails on the form of the label: no label contains a
  newline character. The first label is the HTML text below, not the name, a newline
  and the value.
\<close>

theorem label_has_no_newline:
  "\<not> isl build_sankey_data
     \<and> labels (projr build_sankey_data) ! 0 = ''<b>iPhone</b><br><b>$47.00M</b>''
     \<and> labels (projr build_sankey_data) ! 0 \<noteq> ''iPhone'' @ [CHR 0x0A] @ ''$47.00M''
     \<and> list_all (\<lambda>l. CHR 0x0A \<notin> set l) (labels (projr build_sankey_data))"
proof -
  have "\<not> isl build_sankey_data"
    unfolding build_sankey_data_value by simp
  moreover have "labels (projr build_sankey_data) ! 0 = ''<b>iPhone</b><br><b>$47.00M</b>''"
    and "labels (projr build_sankey_data) ! 0 \<noteq> ''iPhone'' @ [CHR 0x0A] @ ''$47.00M''"
    and "list_all (\<lambda>l. CHR 0x0A \<notin> set l) (labels (projr build_sankey_data))"
    unfolding labels_value by simp_all
  ultimately show ?thesis
    by blast
qed

section \<open>The exporter's effects\<close>


lemma mkdir_exist_ok_twice:
  assumes "mkdir_exist_ok p w = Inr w'"
  shows "mkdir_exist_ok p w' = Inr w'"
  using assms
  by (auto simp: mkdir_exist_ok_def split: option.splits entry.splits)







end
